theory Spec2Isabelle
  imports Main "HOL-Library.Sublist"
begin

section \<open>JavaScript values and string operations used by the components\<close>

text \<open>
  JavaScript strings are modelled as \<^typ>\<open>string\<close>; a character stands for one code
  unit below 0x100. A value of type \<open>string | undefined\<close> is a \<^typ>\<open>string option\<close>,
  with \<open>None\<close> for \<open>undefined\<close>.
\<close>

text \<open>\<open>s.startsWith(p)\<close>.\<close>

fun startsWith :: "string \<Rightarrow> string \<Rightarrow> bool" where
  "startsWith s [] = True"
| "startsWith [] (p # ps) = False"
| "startsWith (c # cs) (p # ps) = (c = p \<and> startsWith cs ps)"

text \<open>\<open>s.includes(t)\<close>: \<open>t\<close> occurs in \<open>s\<close> as a contiguous run.\<close>

fun includes_str :: "string \<Rightarrow> string \<Rightarrow> bool" where
  "includes_str [] t = (t = [])"
| "includes_str (c # cs) t = (startsWith (c # cs) t \<or> includes_str cs t)"

text \<open>
  \<open>s.split(sep)\<close> for a one-character separator: the pieces between the separators,
  never an empty array (\<open>"".split(",")\<close> is \<open>[""]\<close>).
\<close>

fun split :: "char \<Rightarrow> string \<Rightarrow> string list" where
  "split sep [] = [[]]"
| "split sep (c # cs) =
     (if c = sep then [] # split sep cs
      else (case split sep cs of [] \<Rightarrow> [[c]] | p # ps \<Rightarrow> (c # p) # ps))"

text \<open>\<open>xs[i]\<close>: an index outside the array reads \<open>undefined\<close>.\<close>

definition at_index :: "'a list \<Rightarrow> nat \<Rightarrow> 'a option" where
  "at_index xs i = (if i < length xs then Some (xs ! i) else None)"

text \<open>
  The white space and line terminators that \<open>trim\<close> strips, among the code units
  below 0x100: TAB, LF, VT, FF, CR, SP and NBSP.
\<close>

definition isWhiteSpace :: "char \<Rightarrow> bool" where
  "isWhiteSpace c =
     (c = CHR 0x09 \<or> c = CHR 0x0A \<or> c = CHR 0x0B \<or> c = CHR 0x0C \<or> c = CHR 0x0D
      \<or> c = CHR 0x20 \<or> c = CHR 0xA0)"

definition trim :: "string \<Rightarrow> string" where
  "trim s = rev (dropWhile isWhiteSpace (rev (dropWhile isWhiteSpace s)))"

text \<open>A thrown value: an \<open>Error\<close> object with its message, or anything else.\<close>

datatype js_error = Error string | NonError

section \<open>Credential gate (AuthForm in App.tsx)\<close>

text \<open>
  \<open>import.meta.env\<close>: the two build-time variables. A variable that is not configured
  reads \<open>undefined\<close>.
\<close>

record auth_env =
  VITE_AUTH_USERNAME :: "string option"
  VITE_AUTH_PASSWORD :: "string option"

text \<open>The local state of \<open>AuthForm\<close>.\<close>

record auth_form =
  username :: string
  password :: string
  loading :: bool

definition initial_auth_form :: auth_form where
  "initial_auth_form = \<lparr>username = [], password = [], loading = False\<rparr>"

text \<open>What \<open>handleAuth\<close> does to the outside: a call of \<open>onLogin\<close> or an alert box.\<close>

datatype auth_effect = OnLogin bool | Alert string

text \<open>
  The \<open>try\<close> block of \<open>handleAuth\<close> after the simulated delay: strict equality of
  both fields with the configured values (a string never equals \<open>undefined\<close>), then
  \<open>onLogin(true)\<close>; otherwise the shake animation and a thrown \<open>Error\<close>.
\<close>

definition handleAuth_try :: "auth_env \<Rightarrow> auth_form \<Rightarrow> js_error + auth_effect list" where
  "handleAuth_try env a =
     (if Some (username a) = VITE_AUTH_USERNAME env \<and> Some (password a) = VITE_AUTH_PASSWORD env
      then Inr [OnLogin True]
      else Inl (Error ''Invalid credentials''))"

text \<open>
  \<open>handleAuth\<close>: \<open>setLoading(true)\<close>, the \<open>try\<close> block, the \<open>catch\<close> that turns any
  thrown value into the alert, and the \<open>finally\<close> that resets the loading flag.
\<close>

definition handleAuth :: "auth_env \<Rightarrow> auth_form \<Rightarrow> auth_form \<times> auth_effect list" where
  "handleAuth env a =
     (let a1 = a\<lparr>loading := True\<rparr>;
          effects = (case handleAuth_try env a of
                       Inr effs \<Rightarrow> effs
                     | Inl error \<Rightarrow> [Alert ''Invalid credentials''])
      in (a1\<lparr>loading := False\<rparr>, effects))"

section \<open>Chat component (Chat.tsx)\<close>

datatype role = User | Assistant

text \<open>
  \<open>interface Message\<close>. \<open>images\<close> is optional; \<open>handleSubmit\<close> stores the array
  \<open>[imageBase64]\<close> whose single entry is a \<open>string | undefined\<close>.
\<close>

record message =
  role :: role
  content :: string
  images :: "string option list option"

text \<open>The fields of a \<open>File\<close> that the component reads.\<close>

record js_file =
  name :: string
  type :: string

text \<open>The \<open>useState\<close> cells of \<open>Chat\<close>.\<close>

record chat_state =
  messages :: "message list"
  input :: string
  isLoading :: bool
  selectedFile :: "js_file option"

definition initial_chat_state :: chat_state where
  "initial_chat_state = \<lparr>messages = [], input = [], isLoading = False, selectedFile = None\<rparr>"

text \<open>The argument of \<open>ollama.chat\<close>.\<close>

record request_message =
  req_role :: role
  req_content :: string
  req_images :: "string list option"

record chat_request =
  model :: string
  req_messages :: "request_message list"

text \<open>
  The outcome of a \<open>FileReader\<close> read: \<open>onload\<close> with \<open>reader.result\<close>, or \<open>onerror\<close>
  (the promise rejects).
\<close>

datatype read_outcome = Loaded string | ReadError

text \<open>
  What \<open>ollama.chat\<close> resolves to: a response that may be missing altogether and whose
  \<open>message\<close> may be missing; or it rejects with a thrown value.
\<close>

datatype chat_response = Response "string option"

datatype chat_outcome = Resolved "chat_response option" | Rejected js_error

text \<open>
  \<open>handleSubmit\<close> is an async function. Where it stops: it has returned, or it is
  suspended at one of its three \<open>await\<close>s. A suspended read keeps the \<open>userMessage\<close>
  under construction; a suspended inference call is shown with the request it issued.
\<close>

datatype suspension =
    Finished
  | AwaitImage message
  | AwaitText message
  | AwaitChat chat_request

text \<open>
  Lines 100 to 115: append the user message, clear the input and the selected file, raise
  the loading flag and call \<open>ollama.chat\<close>. The request spreads \<open>images\<close> in only when
  \<open>imageBase64\<close> is truthy (a non-empty string).
\<close>

definition send :: "message \<Rightarrow> string option \<Rightarrow> chat_state \<Rightarrow> chat_state \<times> suspension" where
  "send userMessage imageBase64 st =
     (st\<lparr>messages := messages st @ [userMessage], input := [], selectedFile := None,
         isLoading := True\<rparr>,
      AwaitChat \<lparr>model = ''llama3.2-vision:11b'',
                 req_messages =
                   [\<lparr>req_role = User, req_content = content userMessage,
                     req_images = (case imageBase64 of
                                     None \<Rightarrow> None
                                   | Some b \<Rightarrow> if b = [] then None else Some [b])\<rparr>]\<rparr>)"

text \<open>
  Lines 33 to 56 and 75 to 81: the guard, the fresh \<open>userMessage\<close>, and the choice of
  reader by the declared media type. With no file selected the send follows at once.
\<close>

definition handleSubmit_start :: "chat_state \<Rightarrow> chat_state \<times> suspension" where
  "handleSubmit_start st =
     (if trim (input st) = [] \<and> selectedFile st = None then (st, Finished)
      else
        let userMessage = \<lparr>role = User, content = input st, images = None\<rparr>
        in (case selectedFile st of
              Some f \<Rightarrow>
                if startsWith (type f) ''image/'' then (st, AwaitImage userMessage)
                else (st, AwaitText userMessage)
            | None \<Rightarrow> send userMessage None st))"

text \<open>
  Lines 49 to 71: the data URL is cut at the commas and the second piece becomes the one
  entry of \<open>userMessage.images\<close>; a rejected read appends the diagnostic, clears the
  selected file and returns.
\<close>

definition resume_image :: "message \<Rightarrow> read_outcome \<Rightarrow> chat_state \<Rightarrow> chat_state \<times> suspension" where
  "resume_image userMessage r st =
     (case r of
        Loaded result \<Rightarrow>
          let imageBase64 = at_index (split CHR '','' result) 1
          in send (userMessage\<lparr>images := Some [imageBase64]\<rparr>) imageBase64 st
      | ReadError \<Rightarrow>
          (st\<lparr>messages := messages st @
                 [\<lparr>role = Assistant,
                   content = ''Sorry, there was an error processing your image. Please try again.'',
                   images = None\<rparr>],
               selectedFile := None\<rparr>,
           Finished))"

text \<open>
  Lines 75 to 96: the text of the file is appended to \<open>userMessage.content\<close> behind the
  marker; a rejected read is handled as for an image, with its own diagnostic.
\<close>

definition resume_text :: "message \<Rightarrow> read_outcome \<Rightarrow> chat_state \<Rightarrow> chat_state \<times> suspension" where
  "resume_text userMessage r st =
     (case r of
        Loaded hiddenContent \<Rightarrow>
          send (userMessage\<lparr>content := content userMessage
                   @ ''\<newline>\<newline>[Hidden File Content]:\<newline>'' @ hiddenContent\<rparr>) None st
      | ReadError \<Rightarrow>
          (st\<lparr>messages := messages st @
                 [\<lparr>role = Assistant,
                   content = ''Sorry, there was an error processing your file. Please try again.'',
                   images = None\<rparr>],
               selectedFile := None\<rparr>,
           Finished))"

text \<open>
  Lines 106 to 120, the rest of the \<open>try\<close> block: a rejected call throws its value, a
  missing response or message throws \<open>Error("Invalid response from Ollama")\<close>, otherwise
  the reply text is the result.
\<close>

definition chat_try :: "chat_outcome \<Rightarrow> js_error + string" where
  "chat_try outcome =
     (case outcome of
        Rejected error \<Rightarrow> Inl error
      | Resolved None \<Rightarrow> Inl (Error ''Invalid response from Ollama'')
      | Resolved (Some (Response None)) \<Rightarrow> Inl (Error ''Invalid response from Ollama'')
      | Resolved (Some (Response (Some text))) \<Rightarrow> Inr text)"

text \<open>Lines 130 to 136: the text shown for a caught value.\<close>

definition errorMessage :: "js_error \<Rightarrow> string" where
  "errorMessage error =
     (case error of
        Error msg \<Rightarrow>
          if includes_str msg ''Failed to fetch'' \<or> includes_str msg ''NetworkError''
          then ''Unable to connect to Ollama. Please make sure Ollama is running and try again.''
          else ''Sorry, I encountered an error processing your request.''
      | NonError \<Rightarrow> ''Sorry, I encountered an error processing your request.'')"

text \<open>
  Lines 117 to 147: the reply or the diagnostic is appended as an assistant message, and
  the \<open>finally\<close> block lowers the loading flag.
\<close>

definition resume_chat :: "chat_outcome \<Rightarrow> chat_state \<Rightarrow> chat_state" where
  "resume_chat outcome st =
     (let st1 = (case chat_try outcome of
                   Inr text \<Rightarrow>
                     st\<lparr>messages := messages st @
                          [\<lparr>role = Assistant, content = text, images = None\<rparr>]\<rparr>
                 | Inl error \<Rightarrow>
                     st\<lparr>messages := messages st @
                          [\<lparr>role = Assistant, content = errorMessage error, images = None\<rparr>]\<rparr>)
      in st1\<lparr>isLoading := False\<rparr>)"

text \<open>
  One whole run of \<open>handleSubmit\<close> with nothing else happening in between: the outcomes
  of the file read and of the inference call are given, and the result is the final
  state together with the requests that were issued.
\<close>

record outcomes =
  readResult :: read_outcome
  chatResult :: chat_outcome

definition run_from :: "outcomes \<Rightarrow> chat_state \<times> suspension \<Rightarrow> chat_state \<times> chat_request list" where
  "run_from env p =
     (case snd p of
        Finished \<Rightarrow> (fst p, [])
      | AwaitChat req \<Rightarrow> (resume_chat (chatResult env) (fst p), [req])
      | _ \<Rightarrow> (fst p, []))"

definition handleSubmit :: "outcomes \<Rightarrow> chat_state \<Rightarrow> chat_state \<times> chat_request list" where
  "handleSubmit env st =
     (let p = handleSubmit_start st;
          q = (case snd p of
                 AwaitImage userMessage \<Rightarrow> resume_image userMessage (readResult env) (fst p)
               | AwaitText userMessage \<Rightarrow> resume_text userMessage (readResult env) (fst p)
               | _ \<Rightarrow> p)
      in run_from env q)"

text \<open>
  The events of a mounted \<open>Chat\<close>: the form is submitted, a suspended \<open>handleSubmit\<close>
  is resumed by the outcome it waits for, or one of the two \<open>onChange\<close> handlers runs.
\<close>

datatype chat_event =
    Submit
  | ImageRead message read_outcome
  | TextRead message read_outcome
  | ChatDone chat_outcome
  | ChangeInput string
  | ChangeFile "js_file option"

fun chat_segment :: "chat_event \<Rightarrow> chat_state \<Rightarrow> chat_state \<times> suspension" where
  "chat_segment Submit st = handleSubmit_start st"
| "chat_segment (ImageRead userMessage r) st = resume_image userMessage r st"
| "chat_segment (TextRead userMessage r) st = resume_text userMessage r st"
| "chat_segment (ChatDone outcome) st = (resume_chat outcome st, Finished)"
| "chat_segment (ChangeInput v) st = (st\<lparr>input := v\<rparr>, Finished)"
| "chat_segment (ChangeFile f) st = (st\<lparr>selectedFile := f\<rparr>, Finished)"

definition chat_step :: "chat_event \<Rightarrow> chat_state \<Rightarrow> chat_state" where
  "chat_step ev st = fst (chat_segment ev st)"

text \<open>The entries that one run of \<open>handleSubmit\<close> has added to the transcript.\<close>

definition appended :: "outcomes \<Rightarrow> chat_state \<Rightarrow> message list" where
  "appended env st = drop (length (messages st)) (messages (fst (handleSubmit env st)))"

text \<open>The assistant entry for an outcome of the inference call: the reply or the diagnostic.\<close>

definition reply_entry :: "chat_outcome \<Rightarrow> message" where
  "reply_entry outcome =
     \<lparr>role = Assistant,
      content = (case chat_try outcome of Inr text \<Rightarrow> text | Inl error \<Rightarrow> errorMessage error),
      images = None\<rparr>"

text \<open>Line 254: the submit button is disabled while the loading flag is up.\<close>

definition submit_disabled :: "chat_state \<Rightarrow> bool" where
  "submit_disabled st = isLoading st"

text \<open>Line 208: the spinner is rendered while the loading flag is up.\<close>

definition loading_indicator :: "chat_state \<Rightarrow> bool" where
  "loading_indicator st = isLoading st"

section \<open>Shell (App in App.tsx)\<close>

text \<open>
  \<open>App\<close> holds the flag \<open>isAuthenticated\<close> and mounts exactly one child for it:
  \<open>AuthForm\<close> when it is false, \<open>Chat\<close> when it is true. A child's local state lives
  only while the child is mounted and starts from its \<open>useState\<close> defaults at every
  mount, so a state of the application is the flag with the state of the mounted child.
\<close>

datatype app_state = LoggedOut auth_form | LoggedIn chat_state

fun isAuthenticated :: "app_state \<Rightarrow> bool" where
  "isAuthenticated (LoggedOut a) = False"
| "isAuthenticated (LoggedIn c) = True"

datatype view = CredentialGate | TranscriptView

fun visible_view :: "app_state \<Rightarrow> view" where
  "visible_view (LoggedOut a) = CredentialGate"
| "visible_view (LoggedIn c) = TranscriptView"

text \<open>The transcript on screen; no \<open>Chat\<close> mounted, no entries.\<close>

fun transcript :: "app_state \<Rightarrow> message list" where
  "transcript (LoggedOut a) = []"
| "transcript (LoggedIn c) = messages c"

text \<open>
  \<open>setIsAuthenticated\<close>, as \<open>AuthForm\<close> (through \<open>onLogin\<close>) and \<open>Chat\<close> (through
  \<open>onLogout\<close>) call it: a change of the flag swaps the mounted child, the same value
  leaves everything as it is.
\<close>

fun setIsAuthenticated :: "bool \<Rightarrow> app_state \<Rightarrow> app_state" where
  "setIsAuthenticated True (LoggedOut a) = LoggedIn initial_chat_state"
| "setIsAuthenticated False (LoggedOut a) = LoggedOut a"
| "setIsAuthenticated True (LoggedIn c) = LoggedIn c"
| "setIsAuthenticated False (LoggedIn c) = LoggedOut initial_auth_form"

datatype auth_event = ChangeUsername string | ChangePassword string | SubmitAuth

datatype app_event = AuthEvent auth_event | ChatEvent chat_event | Logout

fun apply_effects :: "auth_effect list \<Rightarrow> app_state \<Rightarrow> app_state" where
  "apply_effects [] s = s"
| "apply_effects (OnLogin v # effs) s = apply_effects effs (setIsAuthenticated v s)"
| "apply_effects (Alert text # effs) s = apply_effects effs s"

text \<open>
  One event of the application. The controls of a child exist only while it is
  mounted, so an event of the other child changes nothing.
\<close>

fun app_step :: "auth_env \<Rightarrow> app_event \<Rightarrow> app_state \<Rightarrow> app_state" where
  "app_step env (AuthEvent (ChangeUsername v)) (LoggedOut a) = LoggedOut (a\<lparr>username := v\<rparr>)"
| "app_step env (AuthEvent (ChangePassword v)) (LoggedOut a) = LoggedOut (a\<lparr>password := v\<rparr>)"
| "app_step env (AuthEvent SubmitAuth) (LoggedOut a) =
     (case handleAuth env a of (a', effs) \<Rightarrow> apply_effects effs (LoggedOut a'))"
| "app_step env (AuthEvent ev) (LoggedIn c) = LoggedIn c"
| "app_step env (ChatEvent ev) (LoggedOut a) = LoggedOut a"
| "app_step env (ChatEvent ev) (LoggedIn c) = LoggedIn (chat_step ev c)"
| "app_step env Logout s = setIsAuthenticated False s"

text \<open>\<open>attemptLogin\<close> of the specification: does a submission of the form log in?\<close>

definition attemptLogin :: "auth_env \<Rightarrow> string \<Rightarrow> string \<Rightarrow> bool" where
  "attemptLogin env u p =
     isAuthenticated
       (app_step env (AuthEvent SubmitAuth)
          (LoggedOut \<lparr>username = u, password = p, loading = False\<rparr>))"

section \<open>Facts about the string operations\<close>



lemma dropWhile_all: "(\<forall>c \<in> set s. P c) \<Longrightarrow> dropWhile P s = []"
  by (induction s) simp_all

lemma dropWhile_Nil_all: "dropWhile P s = [] \<Longrightarrow> (\<forall>c \<in> set s. P c)"
  by (induction s) (simp_all split: if_splits)

lemma trim_empty_iff: "trim s = [] \<longleftrightarrow> (\<forall>c \<in> set s. isWhiteSpace c)"
proof
  assume "trim s = []"
  then have "dropWhile isWhiteSpace (rev (dropWhile isWhiteSpace s)) = []"
    by (simp add: trim_def)
  then have "\<forall>c \<in> set (rev (dropWhile isWhiteSpace s)). isWhiteSpace c"
    by (rule dropWhile_Nil_all)
  then have all: "\<forall>c \<in> set (dropWhile isWhiteSpace s). isWhiteSpace c"
    by simp
  have "dropWhile isWhiteSpace s = []"
  proof (cases "dropWhile isWhiteSpace s")
    case Nil
    then show ?thesis .
  next
    case (Cons c cs)
    then have "\<not> isWhiteSpace c"
      by (metis hd_dropWhile list.distinct(1) list.sel(1))
    moreover from Cons all have "isWhiteSpace c"
      by simp
    ultimately show ?thesis by simp
  qed
  then show "\<forall>c \<in> set s. isWhiteSpace c"
    by (rule dropWhile_Nil_all)
next
  assume "\<forall>c \<in> set s. isWhiteSpace c"
  then have "dropWhile isWhiteSpace s = []"
    by (rule dropWhile_all)
  then show "trim s = []"
    by (simp only: trim_def rev.simps dropWhile.simps)
qed

section \<open>Credential gate: login succeeds exactly on the configured pair\<close>

lemma handleAuth_eq:
  "handleAuth env a =
     (a\<lparr>loading := False\<rparr>,
      if VITE_AUTH_USERNAME env = Some (username a) \<and> VITE_AUTH_PASSWORD env = Some (password a)
      then [OnLogin True] else [Alert ''Invalid credentials''])"
  by (auto simp: handleAuth_def handleAuth_try_def Let_def)

text \<open>
  Claim C1. A login attempt with the strings \<open>u\<close> and \<open>p\<close> succeeds, taking the
  application to the authenticated state, if and only if \<open>u\<close> is the configured
  username and \<open>p\<close> the configured password. For every other pair it fails: the
  application stays logged out, the form keeps its fields, and the only effect is the
  alert.
\<close>

theorem login_iff_credentials_match:
  "(attemptLogin env u p \<longleftrightarrow> VITE_AUTH_USERNAME env = Some u \<and> VITE_AUTH_PASSWORD env = Some p)
   \<and> (isAuthenticated (app_step env (AuthEvent SubmitAuth) (LoggedOut a))
        \<longleftrightarrow> VITE_AUTH_USERNAME env = Some (username a) \<and> VITE_AUTH_PASSWORD env = Some (password a))
   \<and> (\<not> (VITE_AUTH_USERNAME env = Some (username a) \<and> VITE_AUTH_PASSWORD env = Some (password a))
        \<longrightarrow> app_step env (AuthEvent SubmitAuth) (LoggedOut a) = LoggedOut (a\<lparr>loading := False\<rparr>)
            \<and> snd (handleAuth env a) = [Alert ''Invalid credentials''])"
  by (simp add: attemptLogin_def handleAuth_eq)

theorem login_iff_credentials_match_witness:
  "attemptLogin \<lparr>VITE_AUTH_USERNAME = Some ''admin'', VITE_AUTH_PASSWORD = Some ''secret''\<rparr> ''admin'' ''secret''
   \<and> \<not> attemptLogin \<lparr>VITE_AUTH_USERNAME = Some ''admin'', VITE_AUTH_PASSWORD = Some ''secret''\<rparr> ''admin'' ''Secret''
   \<and> app_step \<lparr>VITE_AUTH_USERNAME = Some ''admin'', VITE_AUTH_PASSWORD = Some ''secret''\<rparr>
        (AuthEvent SubmitAuth) (LoggedOut \<lparr>username = ''admin'', password = ''guess'', loading = False\<rparr>)
      = LoggedOut \<lparr>username = ''admin'', password = ''guess'', loading = False\<rparr>"
  using login_iff_credentials_match
      [of "\<lparr>VITE_AUTH_USERNAME = Some ''admin'', VITE_AUTH_PASSWORD = Some ''secret''\<rparr>" "''admin''" "''secret''"
          "\<lparr>username = ''admin'', password = ''guess'', loading = False\<rparr>"]
    login_iff_credentials_match
      [of "\<lparr>VITE_AUTH_USERNAME = Some ''admin'', VITE_AUTH_PASSWORD = Some ''secret''\<rparr>" "''admin''" "''Secret''"
          "\<lparr>username = ''admin'', password = ''guess'', loading = False\<rparr>"]
  by simp

section \<open>Chat: the guard of the submit handler\<close>

lemma handleSubmit_noop:
  "trim (input st) = [] \<Longrightarrow> selectedFile st = None \<Longrightarrow> handleSubmit_start st = (st, Finished)"
  by (simp add: handleSubmit_start_def)

text \<open>
  Claim C10. A submission whose input is empty or consists of white space only, with no
  file selected, is a no-op: the handler returns at once, no message is appended, no
  inference request is issued, and the input, the loading flag and the selected file
  are as before.
\<close>

theorem blank_submission_is_noop:
  "(\<forall>c \<in> set (input st). isWhiteSpace c) \<Longrightarrow> selectedFile st = None \<Longrightarrow>
     handleSubmit_start st = (st, Finished) \<and> handleSubmit env st = (st, [])
     \<and> chat_step Submit st = st"
  by (simp add: handleSubmit_def run_from_def chat_step_def handleSubmit_noop trim_empty_iff)

theorem blank_submission_is_noop_witness:
  "handleSubmit \<lparr>readResult = ReadError, chatResult = Resolved None\<rparr>
        \<lparr>messages = [], input = ''  '', isLoading = False, selectedFile = None\<rparr>
      = (\<lparr>messages = [], input = ''  '', isLoading = False, selectedFile = None\<rparr>, [])"
proof -
  have h1: "\<forall>c \<in> set (input \<lparr>messages = [], input = ''  '', isLoading = False, selectedFile = None\<rparr>). isWhiteSpace c"
    by (simp add: isWhiteSpace_def)
  have h2: "selectedFile \<lparr>messages = [], input = ''  '', isLoading = False, selectedFile = None\<rparr> = None"
    by simp
  from blank_submission_is_noop [OF h1 h2, of "\<lparr>readResult = ReadError, chatResult = Resolved None\<rparr>"]
  show ?thesis by blast
qed

section \<open>Chat: one run of the submit handler, case by case\<close>

lemma resume_chat_eq:
  "resume_chat outcome st =
     st\<lparr>messages := messages st @ [reply_entry outcome], isLoading := False\<rparr>"
  by (simp add: resume_chat_def reply_entry_def Let_def split: sum.splits)

lemma run_from_send:
  "run_from env (send userMessage imageBase64 st) =
     (st\<lparr>messages := messages st @ [userMessage, reply_entry (chatResult env)], input := [],
         selectedFile := None, isLoading := False\<rparr>,
      [\<lparr>model = ''llama3.2-vision:11b'',
        req_messages =
          [\<lparr>req_role = User, req_content = content userMessage,
            req_images = (case imageBase64 of
                            None \<Rightarrow> None
                          | Some b \<Rightarrow> if b = [] then None else Some [b])\<rparr>]\<rparr>])"
  by (simp add: run_from_def send_def resume_chat_eq)

lemma handleSubmit_text_only:
  assumes "trim (input st) \<noteq> []" and "selectedFile st = None"
  shows "handleSubmit env st =
     (st\<lparr>messages := messages st @
           [\<lparr>role = User, content = input st, images = None\<rparr>, reply_entry (chatResult env)],
         input := [], selectedFile := None, isLoading := False\<rparr>,
      [\<lparr>model = ''llama3.2-vision:11b'',
        req_messages = [\<lparr>req_role = User, req_content = input st, req_images = None\<rparr>]\<rparr>])"
proof -
  have start: "handleSubmit_start st = send \<lparr>role = User, content = input st, images = None\<rparr> None st"
    using assms by (simp add: handleSubmit_start_def)
  have "handleSubmit env st = run_from env (send \<lparr>role = User, content = input st, images = None\<rparr> None st)"
    unfolding handleSubmit_def start by (simp add: send_def)
  then show ?thesis
    by (simp add: run_from_send)
qed

lemma handleSubmit_image:
  assumes "selectedFile st = Some f" and "startsWith (type f) ''image/''"
  shows "handleSubmit env st =
     (case readResult env of
        Loaded result \<Rightarrow>
          (st\<lparr>messages := messages st @
                [\<lparr>role = User, content = input st,
                  images = Some [at_index (split CHR '','' result) 1]\<rparr>,
                 reply_entry (chatResult env)],
              input := [], selectedFile := None, isLoading := False\<rparr>,
           [\<lparr>model = ''llama3.2-vision:11b'',
             req_messages =
               [\<lparr>req_role = User, req_content = input st,
                 req_images = (case at_index (split CHR '','' result) 1 of
                                 None \<Rightarrow> None
                               | Some b \<Rightarrow> if b = [] then None else Some [b])\<rparr>]\<rparr>])
      | ReadError \<Rightarrow>
          (st\<lparr>messages := messages st @
                [\<lparr>role = Assistant,
                  content = ''Sorry, there was an error processing your image. Please try again.'',
                  images = None\<rparr>],
              selectedFile := None\<rparr>,
           []))"
proof -
  have start: "handleSubmit_start st = (st, AwaitImage \<lparr>role = User, content = input st, images = None\<rparr>)"
    using assms by (simp add: handleSubmit_start_def)
  show ?thesis
  proof (cases "readResult env")
    case (Loaded result)
    have "handleSubmit env st =
            run_from env (send \<lparr>role = User, content = input st,
                                images = Some [at_index (split CHR '','' result) 1]\<rparr>
                            (at_index (split CHR '','' result) 1) st)"
      unfolding handleSubmit_def start by (simp add: Loaded resume_image_def Let_def)
    then show ?thesis
      by (simp add: run_from_send Loaded)
  next
    case ReadError
    then show ?thesis
      unfolding handleSubmit_def start by (simp add: resume_image_def run_from_def)
  qed
qed

lemma handleSubmit_text_file:
  assumes "selectedFile st = Some f" and "\<not> startsWith (type f) ''image/''"
  shows "handleSubmit env st =
     (case readResult env of
        Loaded hiddenContent \<Rightarrow>
          (st\<lparr>messages := messages st @
                [\<lparr>role = User,
                  content = input st @ ''\<newline>\<newline>[Hidden File Content]:\<newline>'' @ hiddenContent,
                  images = None\<rparr>,
                 reply_entry (chatResult env)],
              input := [], selectedFile := None, isLoading := False\<rparr>,
           [\<lparr>model = ''llama3.2-vision:11b'',
             req_messages =
               [\<lparr>req_role = User,
                 req_content = input st @ ''\<newline>\<newline>[Hidden File Content]:\<newline>'' @ hiddenContent,
                 req_images = None\<rparr>]\<rparr>])
      | ReadError \<Rightarrow>
          (st\<lparr>messages := messages st @
                [\<lparr>role = Assistant,
                  content = ''Sorry, there was an error processing your file. Please try again.'',
                  images = None\<rparr>],
              selectedFile := None\<rparr>,
           []))"
proof -
  have start: "handleSubmit_start st = (st, AwaitText \<lparr>role = User, content = input st, images = None\<rparr>)"
    using assms by (simp add: handleSubmit_start_def)
  show ?thesis
  proof (cases "readResult env")
    case (Loaded hiddenContent)
    have "handleSubmit env st =
            run_from env (send \<lparr>role = User,
                                content = input st @ ''\<newline>\<newline>[Hidden File Content]:\<newline>'' @ hiddenContent,
                                images = None\<rparr> None st)"
      unfolding handleSubmit_def start by (simp add: Loaded resume_text_def)
    then show ?thesis
      by (simp add: run_from_send Loaded)
  next
    case ReadError
    then show ?thesis
      unfolding handleSubmit_def start by (simp add: resume_text_def run_from_def)
  qed
qed




lemma appended_eq:
  "messages (fst (handleSubmit env st)) = messages st @ ys \<Longrightarrow> appended env st = ys"
  by (simp add: appended_def)

section \<open>Chat: a text-only submission\<close>

text \<open>
  Claim C2, as amended. A text-only submission (no file selected) whose input has a
  character that is not white space appends exactly two entries, in this order: the
  user message with the input as typed, then the assistant entry, which holds the
  reply when the inference call succeeds and the diagnostic when it fails. The user
  message is in the transcript when the handler suspends on the call; the assistant
  entry follows it when the call settles.
\<close>

theorem text_submission_appends_user_then_reply:
  assumes "\<exists>c \<in> set (input st). \<not> isWhiteSpace c" and "selectedFile st = None"
  shows "appended env st =
           [\<lparr>role = User, content = input st, images = None\<rparr>,
            \<lparr>role = Assistant,
             content = (case chat_try (chatResult env) of
                          Inr text \<Rightarrow> text
                        | Inl error \<Rightarrow> errorMessage error),
             images = None\<rparr>]
         \<and> messages (fst (handleSubmit_start st))
             = messages st @ [\<lparr>role = User, content = input st, images = None\<rparr>]
         \<and> messages (fst (handleSubmit env st))
             = messages (fst (handleSubmit_start st)) @ [reply_entry (chatResult env)]"
proof -
  from assms(1) have trim: "trim (input st) \<noteq> []"
    by (simp add: trim_empty_iff)
  have "appended env st =
          [\<lparr>role = User, content = input st, images = None\<rparr>, reply_entry (chatResult env)]"
    by (rule appended_eq) (simp add: handleSubmit_text_only [OF trim assms(2)])
  moreover have "messages (fst (handleSubmit_start st))
             = messages st @ [\<lparr>role = User, content = input st, images = None\<rparr>]"
    using trim assms(2) by (simp add: handleSubmit_start_def send_def)
  moreover have "messages (fst (handleSubmit env st))
             = messages st @ [\<lparr>role = User, content = input st, images = None\<rparr>,
                              reply_entry (chatResult env)]"
    by (simp add: handleSubmit_text_only [OF trim assms(2)])
  ultimately show ?thesis
    by (simp add: reply_entry_def)
qed

theorem text_submission_appends_user_then_reply_witness:
  "(\<exists>c \<in> set (input \<lparr>messages = [], input = ''Hello'', isLoading = False, selectedFile = None\<rparr>).
      \<not> isWhiteSpace c)
   \<and> appended \<lparr>readResult = ReadError, chatResult = Resolved (Some (Response (Some ''Hi!'')))\<rparr>
        \<lparr>messages = [], input = ''Hello'', isLoading = False, selectedFile = None\<rparr>
      = [\<lparr>role = User, content = ''Hello'', images = None\<rparr>,
         \<lparr>role = Assistant, content = ''Hi!'', images = None\<rparr>]"
proof -
  have h1: "\<exists>c \<in> set (input \<lparr>messages = [], input = ''Hello'', isLoading = False, selectedFile = None\<rparr>).
      \<not> isWhiteSpace c"
    by (simp add: isWhiteSpace_def)
  have h2: "selectedFile \<lparr>messages = [], input = ''Hello'', isLoading = False, selectedFile = None\<rparr> = None"
    by simp
  from text_submission_appends_user_then_reply
         [OF h1 h2, of "\<lparr>readResult = ReadError, chatResult = Resolved (Some (Response (Some ''Hi!'')))\<rparr>"]
  have "appended \<lparr>readResult = ReadError, chatResult = Resolved (Some (Response (Some ''Hi!'')))\<rparr>
        \<lparr>messages = [], input = ''Hello'', isLoading = False, selectedFile = None\<rparr>
      = [\<lparr>role = User, content = ''Hello'', images = None\<rparr>,
         \<lparr>role = Assistant, content = ''Hi!'', images = None\<rparr>]"
    by (simp add: chat_try_def)
  with h1 show ?thesis by blast
qed

text \<open>
  The claim as first stated asks only for a non-empty input. An input of one space is
  not empty, and with no file selected the guard returns before anything is appended.
\<close>

theorem whitespace_submission_appends_nothing:
  "input \<lparr>messages = [], input = '' '', isLoading = False, selectedFile = None\<rparr> \<noteq> []
   \<and> selectedFile \<lparr>messages = [], input = '' '', isLoading = False, selectedFile = None\<rparr> = None
   \<and> appended \<lparr>readResult = ReadError, chatResult = Resolved (Some (Response (Some ''Hi!'')))\<rparr>
        \<lparr>messages = [], input = '' '', isLoading = False, selectedFile = None\<rparr> = []"
  by (simp add: appended_def handleSubmit_def handleSubmit_start_def run_from_def trim_def
        isWhiteSpace_def)

section \<open>Chat: a submission with a selected file\<close>



section \<open>Chat: a file that cannot be read\<close>

lemma handleSubmit_clears_file: "selectedFile (fst (handleSubmit env st)) = None"
proof (cases "selectedFile st")
  case None
  show ?thesis
  proof (cases "trim (input st) = []")
    case True
    with None show ?thesis
      by (simp add: handleSubmit_def handleSubmit_noop run_from_def)
  next
    case False
    with None show ?thesis
      by (simp add: handleSubmit_text_only)
  qed
next
  case (Some f)
  show ?thesis
  proof (cases "startsWith (type f) ''image/''")
    case True
    with Some show ?thesis
      by (simp add: handleSubmit_image split: read_outcome.splits)
  next
    case False
    with Some show ?thesis
      by (simp add: handleSubmit_text_file split: read_outcome.splits)
  qed
qed

text \<open>
  Claim C4. When reading the selected file fails, on the image path or the text path,
  the send is aborted: the run appends exactly one entry, an assistant diagnostic, and
  no user message; it issues no inference request; it ends in an ordinary state, with
  the selected file cleared and nothing else changed. And after every run of the
  handler, whatever its outcome, no file is selected.
\<close>

theorem file_read_failure_aborts_send:
  "selectedFile (fst (handleSubmit env st)) = None
   \<and> (\<forall>f. selectedFile st = Some f \<and> readResult env = ReadError \<longrightarrow>
         appended env st =
           [\<lparr>role = Assistant,
             content = (if startsWith (type f) ''image/''
                        then ''Sorry, there was an error processing your image. Please try again.''
                        else ''Sorry, there was an error processing your file. Please try again.''),
             images = None\<rparr>]
         \<and> snd (handleSubmit env st) = []
         \<and> fst (handleSubmit env st)
             = st\<lparr>messages := messages st @ appended env st, selectedFile := None\<rparr>)"
proof (intro conjI allI impI)
  show "selectedFile (fst (handleSubmit env st)) = None"
    by (rule handleSubmit_clears_file)
next
  fix f
  assume h: "selectedFile st = Some f \<and> readResult env = ReadError"
  show "appended env st =
           [\<lparr>role = Assistant,
             content = (if startsWith (type f) ''image/''
                        then ''Sorry, there was an error processing your image. Please try again.''
                        else ''Sorry, there was an error processing your file. Please try again.''),
             images = None\<rparr>]"
    using h by (cases "startsWith (type f) ''image/''")
      (simp_all add: appended_def handleSubmit_image handleSubmit_text_file)
  show "snd (handleSubmit env st) = []"
    using h by (cases "startsWith (type f) ''image/''")
      (simp_all add: handleSubmit_image handleSubmit_text_file)
  show "fst (handleSubmit env st)
             = st\<lparr>messages := messages st @ appended env st, selectedFile := None\<rparr>"
    using h by (cases "startsWith (type f) ''image/''")
      (simp_all add: appended_def handleSubmit_image handleSubmit_text_file)
qed

theorem file_read_failure_aborts_send_witness:
  "handleSubmit \<lparr>readResult = ReadError, chatResult = Resolved (Some (Response (Some ''Hi!'')))\<rparr>
      \<lparr>messages = [], input = ''what is this?'', isLoading = False,
       selectedFile = Some \<lparr>name = ''photo.png'', type = ''image/png''\<rparr>\<rparr>
    = (\<lparr>messages =
          [\<lparr>role = Assistant,
            content = ''Sorry, there was an error processing your image. Please try again.'',
            images = None\<rparr>],
        input = ''what is this?'', isLoading = False, selectedFile = None\<rparr>, [])"
proof -
  have h: "selectedFile \<lparr>messages = [], input = ''what is this?'', isLoading = False,
       selectedFile = Some \<lparr>name = ''photo.png'', type = ''image/png''\<rparr>\<rparr>
        = Some \<lparr>name = ''photo.png'', type = ''image/png''\<rparr>
     \<and> readResult \<lparr>readResult = ReadError, chatResult = Resolved (Some (Response (Some ''Hi!'')))\<rparr>
        = ReadError"
    by simp
  from file_read_failure_aborts_send
         [of "\<lparr>readResult = ReadError, chatResult = Resolved (Some (Response (Some ''Hi!'')))\<rparr>"
             "\<lparr>messages = [], input = ''what is this?'', isLoading = False,
               selectedFile = Some \<lparr>name = ''photo.png'', type = ''image/png''\<rparr>\<rparr>"] h
  show ?thesis
    by (simp add: prod_eq_iff)
qed

section \<open>Chat: the shape of every run that reaches the inference call\<close>

lemma handleSubmit_shape:
  "snd (handleSubmit env st) = []
   \<or> (\<exists>userMessage.
         role userMessage = User
         \<and> fst (handleSubmit env st) =
             st\<lparr>messages := messages st @ [userMessage, reply_entry (chatResult env)],
                input := [], selectedFile := None, isLoading := False\<rparr>
         \<and> snd (handleSubmit env st) =
             [\<lparr>model = ''llama3.2-vision:11b'',
               req_messages =
                 [\<lparr>req_role = User, req_content = content userMessage,
                   req_images = (case images userMessage of
                                   Some [Some b] \<Rightarrow> if b = [] then None else Some [b]
                                 | _ \<Rightarrow> None)\<rparr>]\<rparr>])"
proof (cases "selectedFile st")
  case None
  show ?thesis
  proof (cases "trim (input st) = []")
    case True
    with None show ?thesis
      by (simp add: handleSubmit_def handleSubmit_noop run_from_def)
  next
    case False
    with None show ?thesis
      by (intro disjI2 exI [of _ "\<lparr>role = User, content = input st, images = None\<rparr>"])
         (simp add: handleSubmit_text_only)
  qed
next
  case (Some f)
  show ?thesis
  proof (cases "readResult env")
    case ReadError
    with Some show ?thesis
      by (cases "startsWith (type f) ''image/''")
        (simp_all add: handleSubmit_image handleSubmit_text_file)
  next
    case (Loaded result)
    show ?thesis
    proof (cases "startsWith (type f) ''image/''")
      case True
      have "role \<lparr>role = User, content = input st,
                   images = Some [at_index (split CHR '','' result) 1]\<rparr> = User"
        by simp
      moreover have "(case images \<lparr>role = User, content = input st,
                   images = Some [at_index (split CHR '','' result) 1]\<rparr> of
                                   Some [Some b] \<Rightarrow> if b = [] then None else Some [b]
                                 | _ \<Rightarrow> None)
           = (case at_index (split CHR '','' result) 1 of
                                 None \<Rightarrow> None
                               | Some b \<Rightarrow> if b = [] then None else Some [b])"
        by (simp split: option.splits)
      ultimately show ?thesis
        using Some True Loaded
        by (intro disjI2 exI [of _ "\<lparr>role = User, content = input st,
                   images = Some [at_index (split CHR '','' result) 1]\<rparr>"])
           (simp add: handleSubmit_image)
    next
      case False
      with Some Loaded show ?thesis
        by (intro disjI2 exI [of _ "\<lparr>role = User,
                   content = input st @ ''\<newline>\<newline>[Hidden File Content]:\<newline>'' @ result,
                   images = None\<rparr>"])
           (simp add: handleSubmit_text_file)
    qed
  qed
qed

lemma handleSubmit_requests_ignore_history:
  "snd (handleSubmit env (st\<lparr>messages := history\<rparr>)) = snd (handleSubmit env st)"
proof (cases "selectedFile st")
  case None
  show ?thesis
  proof (cases "trim (input st) = []")
    case True
    with None show ?thesis
      by (simp add: handleSubmit_def handleSubmit_noop run_from_def)
  next
    case False
    with None show ?thesis
      by (simp add: handleSubmit_text_only)
  qed
next
  case (Some f)
  then show ?thesis
    by (cases "startsWith (type f) ''image/''")
      (simp_all add: handleSubmit_image handleSubmit_text_file split: read_outcome.splits)
qed

section \<open>Chat: a failing inference call\<close>







section \<open>Chat: the inference request\<close>

text \<open>
  Claim C8. Every inference request is single-turn. A run of the handler issues no
  request or exactly one; the request names the fixed model and holds exactly one
  message, of role user, whose text is the text of the user message just appended and
  whose images are that message's one image when it is a non-empty string, and absent
  otherwise. Replacing the transcript by any other history leaves the request as it is.
\<close>

theorem request_is_single_turn:
  "snd (handleSubmit env (st\<lparr>messages := history\<rparr>)) = snd (handleSubmit env st)
   \<and> (snd (handleSubmit env st) = []
       \<or> (\<exists>userMessage.
             role userMessage = User
             \<and> appended env st = [userMessage, reply_entry (chatResult env)]
             \<and> snd (handleSubmit env st) =
                 [\<lparr>model = ''llama3.2-vision:11b'',
                   req_messages =
                     [\<lparr>req_role = User, req_content = content userMessage,
                       req_images = (case images userMessage of
                                       Some [Some b] \<Rightarrow> if b = [] then None else Some [b]
                                     | _ \<Rightarrow> None)\<rparr>]\<rparr>]))"
proof
  show "snd (handleSubmit env (st\<lparr>messages := history\<rparr>)) = snd (handleSubmit env st)"
    by (rule handleSubmit_requests_ignore_history)
next
  from handleSubmit_shape [of env st]
  show "snd (handleSubmit env st) = []
       \<or> (\<exists>userMessage.
             role userMessage = User
             \<and> appended env st = [userMessage, reply_entry (chatResult env)]
             \<and> snd (handleSubmit env st) =
                 [\<lparr>model = ''llama3.2-vision:11b'',
                   req_messages =
                     [\<lparr>req_role = User, req_content = content userMessage,
                       req_images = (case images userMessage of
                                       Some [Some b] \<Rightarrow> if b = [] then None else Some [b]
                                     | _ \<Rightarrow> None)\<rparr>]\<rparr>])"
  proof
    assume "snd (handleSubmit env st) = []"
    then show ?thesis by simp
  next
    assume "\<exists>userMessage.
         role userMessage = User
         \<and> fst (handleSubmit env st) =
             st\<lparr>messages := messages st @ [userMessage, reply_entry (chatResult env)],
                input := [], selectedFile := None, isLoading := False\<rparr>
         \<and> snd (handleSubmit env st) =
             [\<lparr>model = ''llama3.2-vision:11b'',
               req_messages =
                 [\<lparr>req_role = User, req_content = content userMessage,
                   req_images = (case images userMessage of
                                   Some [Some b] \<Rightarrow> if b = [] then None else Some [b]
                                 | _ \<Rightarrow> None)\<rparr>]\<rparr>]"
    then obtain userMessage where um:
      "role userMessage = User"
      "fst (handleSubmit env st) =
             st\<lparr>messages := messages st @ [userMessage, reply_entry (chatResult env)],
                input := [], selectedFile := None, isLoading := False\<rparr>"
      "snd (handleSubmit env st) =
             [\<lparr>model = ''llama3.2-vision:11b'',
               req_messages =
                 [\<lparr>req_role = User, req_content = content userMessage,
                   req_images = (case images userMessage of
                                   Some [Some b] \<Rightarrow> if b = [] then None else Some [b]
                                 | _ \<Rightarrow> None)\<rparr>]\<rparr>]"
      by blast
    have "appended env st = [userMessage, reply_entry (chatResult env)]"
      by (rule appended_eq) (simp add: um(2))
    with um(1,3) show ?thesis by blast
  qed
qed

theorem request_is_single_turn_witness:
  "snd (handleSubmit \<lparr>readResult = ReadError, chatResult = Resolved None\<rparr>
          \<lparr>messages = [\<lparr>role = User, content = ''earlier'', images = None\<rparr>,
                       \<lparr>role = Assistant, content = ''answer'', images = None\<rparr>],
           input = ''Hello'', isLoading = False, selectedFile = None\<rparr>)
     = [\<lparr>model = ''llama3.2-vision:11b'',
         req_messages = [\<lparr>req_role = User, req_content = ''Hello'', req_images = None\<rparr>]\<rparr>]"
proof -
  have "snd (handleSubmit \<lparr>readResult = ReadError, chatResult = Resolved None\<rparr>
          \<lparr>messages = [], input = ''Hello'', isLoading = False, selectedFile = None\<rparr>)
     = [\<lparr>model = ''llama3.2-vision:11b'',
         req_messages = [\<lparr>req_role = User, req_content = ''Hello'', req_images = None\<rparr>]\<rparr>]"
    by (simp add: handleSubmit_text_only trim_def isWhiteSpace_def)
  with request_is_single_turn
         [where env = "\<lparr>readResult = ReadError, chatResult = Resolved None\<rparr>"
            and st = "\<lparr>messages = [], input = ''Hello'', isLoading = False, selectedFile = None\<rparr>"
            and history = "[\<lparr>role = User, content = ''earlier'', images = None\<rparr>,
                            \<lparr>role = Assistant, content = ''answer'', images = None\<rparr>]"]
  show ?thesis by simp
qed

section \<open>Chat: the transcript only grows\<close>

lemma chat_segment_messages:
  "\<exists>ys. messages (fst (chat_segment ev st)) = messages st @ ys"
proof (cases ev)
  case Submit
  then show ?thesis
    by (simp add: handleSubmit_start_def send_def Let_def split: option.splits)
next
  case (ImageRead userMessage r)
  then show ?thesis
    by (simp add: resume_image_def send_def Let_def split: read_outcome.splits)
next
  case (TextRead userMessage r)
  then show ?thesis
    by (simp add: resume_text_def send_def split: read_outcome.splits)
next
  case (ChatDone outcome)
  then show ?thesis
    by (simp add: resume_chat_eq)
next
  case (ChangeInput v)
  then show ?thesis by simp
next
  case (ChangeFile f)
  then show ?thesis by simp
qed

lemma chat_step_prefix: "prefix (messages st) (messages (chat_step ev st))"
  using chat_segment_messages [of ev st] by (auto simp: chat_step_def prefix_def)

lemma fold_chat_step_prefix: "prefix (messages st) (messages (fold chat_step evs st))"
proof (induction evs arbitrary: st)
  case Nil
  show ?case by simp
next
  case (Cons ev evs)
  have "prefix (messages st) (messages (chat_step ev st))"
    by (rule chat_step_prefix)
  also have "prefix (messages (chat_step ev st)) (messages (fold chat_step evs (chat_step ev st)))"
    by (rule Cons.IH)
  finally show ?case by simp
qed

lemma handleSubmit_prefix: "prefix (messages st) (messages (fst (handleSubmit env st)))"
proof (cases "snd (handleSubmit env st) = []")
  case False
  with handleSubmit_shape [of env st] show ?thesis
    by auto
next
  case True
  show ?thesis
  proof (cases "selectedFile st")
    case None
    show ?thesis
    proof (cases "trim (input st) = []")
      case True
      with None show ?thesis
        by (simp add: handleSubmit_def handleSubmit_noop run_from_def)
    next
      case False
      with None show ?thesis
        by (simp add: handleSubmit_text_only)
    qed
  next
    case (Some f)
    then show ?thesis
      by (cases "startsWith (type f) ''image/''")
        (simp_all add: handleSubmit_image handleSubmit_text_file split: read_outcome.splits)
  qed
qed

text \<open>
  Claim C7. The transcript is append-only. Every operation of the chat session (a
  submission, the resumption of the handler after a file read that succeeded or failed,
  after an inference call that succeeded or failed, and the two change handlers) leaves
  the earlier transcript as a prefix of the new one, and so does every sequence of such
  operations and every whole run of the handler: no entry is changed, removed or
  reordered, and new entries come at the end.
\<close>

theorem transcript_is_append_only:
  "prefix (messages st) (messages (chat_step ev st))
   \<and> prefix (messages st) (messages (fold chat_step evs st))
   \<and> prefix (messages st) (messages (fst (handleSubmit env st)))
   \<and> length (messages st) \<le> length (messages (fold chat_step evs st))
   \<and> (\<forall>i < length (messages st). messages (fold chat_step evs st) ! i = messages st ! i)"
proof (intro conjI allI impI)
  show "prefix (messages st) (messages (chat_step ev st))"
    by (rule chat_step_prefix)
  show "prefix (messages st) (messages (fold chat_step evs st))"
    by (rule fold_chat_step_prefix)
  show "prefix (messages st) (messages (fst (handleSubmit env st)))"
    by (rule handleSubmit_prefix)
  show "length (messages st) \<le> length (messages (fold chat_step evs st))"
    using fold_chat_step_prefix [of st evs] by (rule prefix_length_le)
next
  fix i
  assume "i < length (messages st)"
  with fold_chat_step_prefix [of st evs]
  show "messages (fold chat_step evs st) ! i = messages st ! i"
    by (auto simp: prefix_def nth_append)
qed

theorem transcript_is_append_only_witness:
  "messages (fold chat_step [Submit, ChangeInput ''next'', ChatDone (Rejected NonError)]
       \<lparr>messages = [\<lparr>role = User, content = ''earlier'', images = None\<rparr>], input = ''Hello'',
        isLoading = False, selectedFile = None\<rparr>) ! 0
     = \<lparr>role = User, content = ''earlier'', images = None\<rparr>"
  using transcript_is_append_only
    [where st = "\<lparr>messages = [\<lparr>role = User, content = ''earlier'', images = None\<rparr>],
                   input = ''Hello'', isLoading = False, selectedFile = None\<rparr>"
       and evs = "[Submit, ChangeInput ''next'', ChatDone (Rejected NonError)]"]
  by simp

section \<open>Chat: the loading flag\<close>

text \<open>
  Claim C6. The claim asks for the loading indicator, and with it the disabled submit
  button, during the whole of a send, the file read included, and for its removal when
  the send resolves. The handler raises the flag only after the file read. Evaluated
  on a submission with an image selected: the first click suspends on the read with
  the flag down, so no indicator is shown and the button is enabled; a second click in
  that window is accepted and suspends in the same way; each read, once loaded,
  appends its user message and issues its request; and the first reply lowers the flag
  while the second call has not resolved.
\<close>

theorem double_submission_during_file_read:
  "chat_segment Submit
       \<lparr>messages = [], input = ''look'', isLoading = False,
        selectedFile = Some \<lparr>name = ''photo.png'', type = ''image/png''\<rparr>\<rparr>
     = (\<lparr>messages = [], input = ''look'', isLoading = False,
        selectedFile = Some \<lparr>name = ''photo.png'', type = ''image/png''\<rparr>\<rparr>,
        AwaitImage \<lparr>role = User, content = ''look'', images = None\<rparr>)
   \<and> \<not> loading_indicator
       \<lparr>messages = [], input = ''look'', isLoading = False,
        selectedFile = Some \<lparr>name = ''photo.png'', type = ''image/png''\<rparr>\<rparr>
   \<and> \<not> submit_disabled
       \<lparr>messages = [], input = ''look'', isLoading = False,
        selectedFile = Some \<lparr>name = ''photo.png'', type = ''image/png''\<rparr>\<rparr>
   \<and> chat_segment (ImageRead \<lparr>role = User, content = ''look'', images = None\<rparr> (Loaded ''data:image/png;base64,QUJD''))
       \<lparr>messages = [], input = ''look'', isLoading = False,
        selectedFile = Some \<lparr>name = ''photo.png'', type = ''image/png''\<rparr>\<rparr>
     = (\<lparr>messages = [\<lparr>role = User, content = ''look'', images = Some [Some ''QUJD'']\<rparr>],
        input = [], isLoading = True, selectedFile = None\<rparr>,
        AwaitChat
         \<lparr>model = ''llama3.2-vision:11b'',
          req_messages = [\<lparr>req_role = User, req_content = ''look'', req_images = Some [''QUJD'']\<rparr>]\<rparr>)
   \<and> chat_segment (ImageRead \<lparr>role = User, content = ''look'', images = None\<rparr> (Loaded ''data:image/png;base64,QUJD''))
       \<lparr>messages = [\<lparr>role = User, content = ''look'', images = Some [Some ''QUJD'']\<rparr>],
        input = [], isLoading = True, selectedFile = None\<rparr>
     = (\<lparr>messages = [\<lparr>role = User, content = ''look'', images = Some [Some ''QUJD'']\<rparr>,
                    \<lparr>role = User, content = ''look'', images = Some [Some ''QUJD'']\<rparr>],
        input = [], isLoading = True, selectedFile = None\<rparr>,
        AwaitChat
         \<lparr>model = ''llama3.2-vision:11b'',
          req_messages = [\<lparr>req_role = User, req_content = ''look'', req_images = Some [''QUJD'']\<rparr>]\<rparr>)
   \<and> chat_segment (ChatDone (Resolved (Some (Response (Some ''A cat.'')))))
       \<lparr>messages = [\<lparr>role = User, content = ''look'', images = Some [Some ''QUJD'']\<rparr>,
                    \<lparr>role = User, content = ''look'', images = Some [Some ''QUJD'']\<rparr>],
        input = [], isLoading = True, selectedFile = None\<rparr>
     = (\<lparr>messages = [\<lparr>role = User, content = ''look'', images = Some [Some ''QUJD'']\<rparr>,
                    \<lparr>role = User, content = ''look'', images = Some [Some ''QUJD'']\<rparr>,
                    \<lparr>role = Assistant, content = ''A cat.'', images = None\<rparr>],
        input = [], isLoading = False, selectedFile = None\<rparr>,
        Finished)
   \<and> \<not> loading_indicator
       \<lparr>messages = [\<lparr>role = User, content = ''look'', images = Some [Some ''QUJD'']\<rparr>,
                    \<lparr>role = User, content = ''look'', images = Some [Some ''QUJD'']\<rparr>,
                    \<lparr>role = Assistant, content = ''A cat.'', images = None\<rparr>],
        input = [], isLoading = False, selectedFile = None\<rparr>
   \<and> \<not> submit_disabled
       \<lparr>messages = [\<lparr>role = User, content = ''look'', images = Some [Some ''QUJD'']\<rparr>,
                    \<lparr>role = User, content = ''look'', images = Some [Some ''QUJD'']\<rparr>,
                    \<lparr>role = Assistant, content = ''A cat.'', images = None\<rparr>],
        input = [], isLoading = False, selectedFile = None\<rparr>"
  by (simp add: handleSubmit_start_def resume_image_def send_def resume_chat_eq reply_entry_def
        chat_try_def at_index_def loading_indicator_def submit_disabled_def Let_def)

section \<open>Shell: two states\<close>

lemma app_step_from_logged_out:
  "app_step env ev (LoggedOut a) =
     (if ev = AuthEvent SubmitAuth \<and> VITE_AUTH_USERNAME env = Some (username a)
          \<and> VITE_AUTH_PASSWORD env = Some (password a)
      then LoggedIn initial_chat_state
      else LoggedOut (case ev of
                        AuthEvent (ChangeUsername v) \<Rightarrow> a\<lparr>username := v\<rparr>
                      | AuthEvent (ChangePassword v) \<Rightarrow> a\<lparr>password := v\<rparr>
                      | AuthEvent SubmitAuth \<Rightarrow> a\<lparr>loading := False\<rparr>
                      | _ \<Rightarrow> a))"
proof (cases ev)
  case (AuthEvent x)
  then show ?thesis
    by (cases x) (simp_all add: handleAuth_eq)
next
  case (ChatEvent x)
  then show ?thesis by simp
next
  case Logout
  then show ?thesis by simp
qed

lemma app_step_from_logged_in:
  "app_step env ev (LoggedIn c) =
     (case ev of
        Logout \<Rightarrow> LoggedOut initial_auth_form
      | ChatEvent x \<Rightarrow> LoggedIn (chat_step x c)
      | AuthEvent x \<Rightarrow> LoggedIn c)"
  by (cases ev) simp_all

text \<open>
  Claim C9. The application has two states, logged out and logged in. From the
  logged-out state an event leads to the logged-in state if and only if it is a
  submission of the form with the configured credentials, and then the transcript
  view is shown with an empty transcript. From the logged-in state an event leads to
  the logged-out state if and only if it is the logout action, and after logout the
  credential gate is shown and the transcript is empty. The visible view is determined
  by the flag, and every state is one of the two.
\<close>

theorem app_is_two_state_machine:
  "(isAuthenticated (app_step env ev (LoggedOut a)) \<longleftrightarrow>
      ev = AuthEvent SubmitAuth \<and> VITE_AUTH_USERNAME env = Some (username a)
      \<and> VITE_AUTH_PASSWORD env = Some (password a))
   \<and> (isAuthenticated (app_step env ev (LoggedOut a)) \<longrightarrow>
        visible_view (app_step env ev (LoggedOut a)) = TranscriptView
        \<and> transcript (app_step env ev (LoggedOut a)) = [])
   \<and> (\<not> isAuthenticated (app_step env ev (LoggedIn c)) \<longleftrightarrow> ev = Logout)
   \<and> visible_view (app_step env Logout s) = CredentialGate
   \<and> transcript (app_step env Logout s) = []
   \<and> visible_view s = (if isAuthenticated s then TranscriptView else CredentialGate)
   \<and> ((\<exists>a'. s = LoggedOut a') \<or> (\<exists>c'. s = LoggedIn c'))"
proof (intro conjI)
  show "isAuthenticated (app_step env ev (LoggedOut a)) \<longleftrightarrow>
      ev = AuthEvent SubmitAuth \<and> VITE_AUTH_USERNAME env = Some (username a)
      \<and> VITE_AUTH_PASSWORD env = Some (password a)"
    by (simp add: app_step_from_logged_out)
  show "isAuthenticated (app_step env ev (LoggedOut a)) \<longrightarrow>
        visible_view (app_step env ev (LoggedOut a)) = TranscriptView
        \<and> transcript (app_step env ev (LoggedOut a)) = []"
    by (simp add: app_step_from_logged_out initial_chat_state_def)
  show "\<not> isAuthenticated (app_step env ev (LoggedIn c)) \<longleftrightarrow> ev = Logout"
    by (simp add: app_step_from_logged_in split: app_event.splits)
  show "visible_view (app_step env Logout s) = CredentialGate"
    by (cases s) simp_all
  show "transcript (app_step env Logout s) = []"
    by (cases s) simp_all
  show "visible_view s = (if isAuthenticated s then TranscriptView else CredentialGate)"
    by (cases s) simp_all
  show "(\<exists>a'. s = LoggedOut a') \<or> (\<exists>c'. s = LoggedIn c')"
    by (cases s) simp_all
qed

theorem app_is_two_state_machine_witness:
  "visible_view (app_step \<lparr>VITE_AUTH_USERNAME = Some ''admin'', VITE_AUTH_PASSWORD = Some ''secret''\<rparr>
       (AuthEvent SubmitAuth) (LoggedOut \<lparr>username = ''admin'', password = ''secret'', loading = False\<rparr>))
     = TranscriptView
   \<and> transcript (app_step \<lparr>VITE_AUTH_USERNAME = Some ''admin'', VITE_AUTH_PASSWORD = Some ''secret''\<rparr>
       (AuthEvent SubmitAuth) (LoggedOut \<lparr>username = ''admin'', password = ''secret'', loading = False\<rparr>))
     = []
   \<and> isAuthenticated (app_step \<lparr>VITE_AUTH_USERNAME = Some ''admin'', VITE_AUTH_PASSWORD = Some ''secret''\<rparr>
       (ChatEvent Submit)
       (LoggedIn \<lparr>messages = [], input = ''Hello'', isLoading = False, selectedFile = None\<rparr>))"
  using app_is_two_state_machine
    [where env = "\<lparr>VITE_AUTH_USERNAME = Some ''admin'', VITE_AUTH_PASSWORD = Some ''secret''\<rparr>"
       and ev = "AuthEvent SubmitAuth"
       and a = "\<lparr>username = ''admin'', password = ''secret'', loading = False\<rparr>"]
    app_is_two_state_machine
    [where env = "\<lparr>VITE_AUTH_USERNAME = Some ''admin'', VITE_AUTH_PASSWORD = Some ''secret''\<rparr>"
       and ev = "ChatEvent Submit"
       and c = "\<lparr>messages = [], input = ''Hello'', isLoading = False, selectedFile = None\<rparr>"]
  by simp

end
